theory Spec2Isabelle
  imports Complex_Main "HOL-Library.AList"
begin

section \<open>Numbers and template strings\<close>

text \<open>
  JavaScript numbers are idealised: a finite number is a \<open>real\<close>, and a number that went
  through \<open>Math.round\<close> is an \<open>int\<close>. \<open>Math.round\<close> takes the nearest integer and sends a
  half upwards, which is \<open>floor (v + 1/2)\<close>. The viewport size is a whole number of pixels,
  and so is every number that the code prints into a string here: the \<open>space\<close> option and a
  numeric value of a style patch are integers. Division by a scale of 0 gives \<open>Infinity\<close> or
  \<open>NaN\<close> in JavaScript and is not modelled; what is proved of measured values assumes a
  scale above 0.
\<close>

definition Math_round :: "real \<Rightarrow> int" where
  "Math_round v = \<lfloor>v + 1 / 2\<rfloor>"

text \<open>The decimal digits of a natural number, as a template literal prints them.\<close>

fun digits :: "nat \<Rightarrow> string" where
  "digits n =
     (if n < 10 then [''0123456789'' ! n]
      else digits (n div 10) @ [''0123456789'' ! (n mod 10)])"

declare digits.simps [simp del]

text \<open>\<open>`${n}`\<close> for an integral number \<open>n\<close>.\<close>

definition number_string :: "int \<Rightarrow> string" where
  "number_string n = (if n < 0 then CHR ''-'' # digits (nat (- n)) else digits (nat n))"

text \<open>\<open>`${n}px`\<close>.\<close>

definition px :: "int \<Rightarrow> string" where
  "px n = number_string n @ ''px''"

text \<open>
  A destructured property that the object may lack is \<open>undefined\<close>, here \<open>None\<close>. In
  arithmetic \<open>undefined\<close> becomes \<open>NaN\<close> (again \<open>None\<close>), every comparison with \<open>NaN\<close> is
  false, and a template literal prints it as the word \<open>undefined\<close>.
\<close>

definition to_number :: "int option \<Rightarrow> real option" where
  "to_number v = map_option of_int v"

fun js_minus :: "real option \<Rightarrow> real option \<Rightarrow> real option" where
  "js_minus (Some a) (Some b) = Some (a - b)"
| "js_minus _ _ = None"

fun js_plus :: "real option \<Rightarrow> real option \<Rightarrow> real option" where
  "js_plus (Some a) (Some b) = Some (a + b)"
| "js_plus _ _ = None"

fun js_less :: "real option \<Rightarrow> real option \<Rightarrow> bool" where
  "js_less (Some a) (Some b) = (a < b)"
| "js_less _ _ = False"

fun js_greater :: "real option \<Rightarrow> real option \<Rightarrow> bool" where
  "js_greater (Some a) (Some b) = (a > b)"
| "js_greater _ _ = False"

fun field_px :: "int option \<Rightarrow> string" where
  "field_px None = ''undefinedpx''"
| "field_px (Some n) = px n"

section \<open>Rectangle measurement\<close>

text \<open>The platform's raw rectangle, with the eight properties \<open>scaleRect\<close> reads.\<close>

record DOMRect =
  raw_left :: real
  raw_top :: real
  raw_right :: real
  raw_bottom :: real
  raw_width :: real
  raw_height :: real
  raw_x :: real
  raw_y :: real

record OffsetRect =
  left :: int
  top' :: int
  right :: int
  bottom :: int
  width :: int
  height :: int

record ScaledDOMRect = OffsetRect +
  x_pos :: int
  y_pos :: int

definition scaleRect :: "DOMRect \<Rightarrow> real \<Rightarrow> ScaledDOMRect" where
  "scaleRect rect sc =
     \<lparr>left = Math_round (raw_left rect / sc),
      top' = Math_round (raw_top rect / sc),
      right = Math_round (raw_right rect / sc),
      bottom = Math_round (raw_bottom rect / sc),
      width = Math_round (raw_width rect / sc),
      height = Math_round (raw_height rect / sc),
      x_pos = Math_round (raw_x rect / sc),
      y_pos = Math_round (raw_y rect / sc)\<rparr>"

text \<open>
  The page: the viewport size, the elements (by handle) with what the code reads and
  writes of each, and the console. The inline style keeps every assignment as it is
  written; whether the browser's style parser accepts a value is outside the model.
\<close>

record HTMLElement =
  parentElement :: "nat option"
  getBoundingClientRect :: DOMRect
  classList :: "string list"
  inline_style :: "(string \<times> string) list"

record page =
  innerWidth :: int
  innerHeight :: int
  nodes :: "nat \<Rightarrow> HTMLElement"
  console :: "string list"

definition scaledBoundingClientRect :: "page \<Rightarrow> nat \<Rightarrow> real \<Rightarrow> ScaledDOMRect" where
  "scaledBoundingClientRect pg el sc = scaleRect (getBoundingClientRect (nodes pg el)) sc"

text \<open>
  The second argument of \<open>offsets\<close>: omitted, a boolean, or an object, which is an element
  or (at run time) something without \<open>getBoundingClientRect\<close>.
\<close>

datatype reference = Elem nat | NonElement

datatype relativeTo = Omitted | Boolean bool | Reference reference

datatype error = Error string

fun truthy :: "relativeTo \<Rightarrow> bool" where
  "truthy Omitted = False"
| "truthy (Boolean b) = b"
| "truthy (Reference r) = True"

text \<open>
  \<open>relation\<close>: the parent element for a boolean, \<open>relativeTo\<close> itself otherwise; \<open>None\<close> is
  \<open>null\<close>.
\<close>

fun relation :: "page \<Rightarrow> nat \<Rightarrow> relativeTo \<Rightarrow> reference option" where
  "relation pg el (Boolean b) = map_option Elem (parentElement (nodes pg el))"
| "relation pg el (Reference r) = Some r"
| "relation pg el Omitted = None"

text \<open>\<open>relation && typeof relation.getBoundingClientRect === 'function'\<close>.\<close>

fun boundable :: "reference option \<Rightarrow> nat option" where
  "boundable (Some (Elem n)) = Some n"
| "boundable (Some NonElement) = None"
| "boundable None = None"

definition offsets :: "page \<Rightarrow> nat \<Rightarrow> relativeTo \<Rightarrow> real \<Rightarrow> error + OffsetRect" where
  "offsets pg el rel_to sc =
     (if truthy rel_to then
        (case boundable (relation pg el rel_to) of
           Some rel \<Rightarrow>
             (let e = scaledBoundingClientRect pg el sc;
                  r = scaledBoundingClientRect pg rel sc;
                  l = Math_round (of_int (left e) - of_int (left r));
                  t = Math_round (of_int (top' e) - of_int (top' r));
                  rt = Math_round (of_int (width r) - (of_int l + of_int (width e)));
                  b = Math_round (of_int (height r) - (of_int t + of_int (height e)))
              in Inr \<lparr>left = l, top' = t, right = rt, bottom = b,
                      width = width e, height = height e\<rparr>)
         | None \<Rightarrow> Inl (Error ''Invalid relativeTo argument. Must be boolean or HTML Element!''))
      else
        (let e = scaledBoundingClientRect pg el sc
         in Inr \<lparr>left = left e, top' = top' e,
                 right = Math_round (of_int (innerWidth pg) / sc - of_int (right e)),
                 bottom = Math_round (of_int (innerHeight pg) / sc - of_int (bottom e)),
                 width = width e, height = height e\<rparr>))"

section \<open>Applying styles\<close>

text \<open>A value of a style patch: a string, a number at run time, or \<open>undefined\<close>.\<close>

datatype style_value = Text string | Numeric int | Undefined

text \<open>
  \<open>val\<close>, the string the loop computes for a value (\<open>None\<close> is \<open>undefined\<close>), its truthiness,
  and the string that assigning \<open>value\<close> itself to a style property stores.
\<close>

fun style_val :: "style_value \<Rightarrow> string option" where
  "style_val (Numeric n) = Some (if n > 0 then px n else number_string n)"
| "style_val (Text s) = Some s"
| "style_val Undefined = None"

fun truthy_val :: "string option \<Rightarrow> bool" where
  "truthy_val None = False"
| "truthy_val (Some s) = (s \<noteq> [])"

fun assigned :: "style_value \<Rightarrow> string" where
  "assigned (Text s) = s"
| "assigned (Numeric n) = number_string n"
| "assigned Undefined = ''''"

definition style_assign :: "nat \<Rightarrow> string \<Rightarrow> string \<Rightarrow> page \<Rightarrow> page" where
  "style_assign el k v pg =
     pg\<lparr>nodes := (nodes pg)
       (el := (nodes pg el)\<lparr>inline_style := AList.update k v (inline_style (nodes pg el))\<rparr>)\<rparr>"

definition removeAttribute_style :: "nat \<Rightarrow> page \<Rightarrow> page" where
  "removeAttribute_style el pg =
     pg\<lparr>nodes := (nodes pg)(el := (nodes pg el)\<lparr>inline_style := []\<rparr>)\<rparr>"

fun style_entries :: "nat \<Rightarrow> (string \<times> style_value) list \<Rightarrow> page \<Rightarrow> page" where
  "style_entries el [] pg = pg"
| "style_entries el ((k, v) # rest) pg =
     style_entries el rest
       (if truthy_val (style_val v) then style_assign el k (assigned v) pg else pg)"

definition style :: "nat \<Rightarrow> (string \<times> style_value) list \<Rightarrow> bool \<Rightarrow> page \<Rightarrow> page" where
  "style el sts reset pg =
     style_entries el sts (if reset then removeAttribute_style el pg else pg)"

section \<open>Placement\<close>

datatype DirectionX = X_before | X_after | X_between | X_left | X_right

datatype DirectionY = Y_above | Y_below | Y_between | Y_top | Y_bottom

record PopupOptions =
  element :: "nat option"
  parent :: "nat option"
  xDir :: "DirectionX option"
  yDir :: "DirectionY option"
  scale :: "real option"
  swap :: "bool option"
  space :: "int option"

text \<open>
  What \<open>popup\<close> mutates while it runs: the page (through \<open>classList.add\<close>), the \<open>styles\<close>
  object, whose keys keep their insertion order, and the two translation components.
\<close>

record placement =
  page_of :: page
  styles :: "(string \<times> style_value) list"
  tx :: string
  ty :: string

definition set_style :: "string \<Rightarrow> string \<Rightarrow> placement \<Rightarrow> placement" where
  "set_style k v st = st\<lparr>styles := AList.update k (Text v) (styles st)\<rparr>"

text \<open>\<open>classList.add\<close> appends a token that is not in the list yet.\<close>

definition classList_add :: "nat \<Rightarrow> string \<Rightarrow> page \<Rightarrow> page" where
  "classList_add el c pg =
     pg\<lparr>nodes := (nodes pg)
       (el := (nodes pg el)\<lparr>classList :=
          (if c \<in> set (classList (nodes pg el)) then classList (nodes pg el)
           else classList (nodes pg el) @ [c])\<rparr>)\<rparr>"

definition add_class :: "nat \<Rightarrow> string \<Rightarrow> placement \<Rightarrow> placement" where
  "add_class el c st = st\<lparr>page_of := classList_add el c (page_of st)\<rparr>"

text \<open>
  The horizontal block of \<open>popup\<close>. \<open>off\<close> is the anchor's rectangle from \<open>offsets\<close>, \<open>centerX\<close> the
  destructured property of that name.
\<close>

definition place_x ::
  "nat \<Rightarrow> DirectionX \<Rightarrow> bool \<Rightarrow> int \<Rightarrow> int \<Rightarrow> int \<Rightarrow> OffsetRect \<Rightarrow> int option \<Rightarrow>
   placement \<Rightarrow> placement" where
  "place_x el xd sw sp iw elWidth off centerX st =
     (case xd of
        X_before \<Rightarrow>
          (let offSide = right off + elWidth < 0 in
           if offSide then
             (let s1 = (if sw then set_style ''left'' (px (left off + width off)) st
                        else set_style ''left'' ''0'' st);
                  s2 = set_style ''marginLeft'' (px sp) s1
              in add_class el ''x-after'' s2)
           else
             (let s1 = set_style ''right'' (px (right off + width off)) st;
                  s2 = set_style ''marginRight'' (px sp) s1
              in add_class el ''x-before'' s2))
      | X_after \<Rightarrow>
          (let offSide = left off + elWidth > iw in
           if offSide then
             (let s1 = (if sw then set_style ''right'' (px (right off + width off)) st
                        else set_style ''right'' ''0'' st);
                  s2 = set_style ''marginRight'' (px sp) s1
              in add_class el ''x-before'' s2)
           else
             (let s1 = set_style ''left'' (px (left off + width off)) st;
                  s2 = set_style ''marginLeft'' (px sp) s1
              in add_class el ''x-after'' s2))
      | X_between \<Rightarrow>
          (let offsideLeft =
                 js_less (js_minus (to_number centerX) (Some (of_int elWidth / 2))) (Some 0);
               offsideRight =
                 js_greater (js_plus (to_number centerX) (Some (of_int elWidth / 2)))
                   (Some (of_int iw))
           in
           if offsideLeft then
             (let s1 = set_style ''left'' (px sp) st;
                  s2 = set_style ''maxWidth'' (px (iw - sp * 2)) s1
              in add_class el ''x-screen-left'' s2)
           else if offsideRight then
             (let s1 = set_style ''right'' (px sp) st;
                  s2 = set_style ''maxWidth'' (px (iw - sp * 2)) s1
              in add_class el ''x-screen-right'' s2)
           else
             (let s1 = set_style ''left'' (field_px centerX) st;
                  s2 = s1\<lparr>tx := ''-50%''\<rparr>
              in add_class el ''x-between'' s2))
      | X_left \<Rightarrow> add_class el ''x-left'' (set_style ''left'' (px (left off)) st)
      | X_right \<Rightarrow> add_class el ''x-right'' (set_style ''right'' (px (right off)) st))"

text \<open>The vertical block of \<open>popup\<close>.\<close>

definition place_y ::
  "nat \<Rightarrow> DirectionY \<Rightarrow> bool \<Rightarrow> int \<Rightarrow> int \<Rightarrow> int \<Rightarrow> OffsetRect \<Rightarrow> int option \<Rightarrow>
   placement \<Rightarrow> placement" where
  "place_y el yd sw sp ih elHeight off centerY st =
     (case yd of
        Y_above \<Rightarrow>
          (let offSide = bottom off + elHeight < 0 in
           if offSide then
             (let s1 = (if sw then set_style ''top'' (px (top' off + height off)) st
                        else set_style ''top'' ''0'' st);
                  s2 = set_style ''marginTop'' (px sp) s1
              in add_class el ''y-below'' s2)
           else
             (let s1 = set_style ''bottom'' (px (bottom off + height off)) st;
                  s2 = set_style ''marginBottom'' (px sp) s1
              in add_class el ''y-above'' s2))
      | Y_below \<Rightarrow>
          (let offSide = top' off + elHeight > ih in
           if offSide then
             (let s1 = (if sw then
                          add_class el ''y-below''
                            (set_style ''bottom'' (px (bottom off + height off)) st)
                        else set_style ''bottom'' ''0'' st);
                  s2 = set_style ''marginBottom'' (px sp) s1
              in add_class el ''y-above'' s2)
           else
             (let s1 = set_style ''top'' (px (top' off + height off)) st;
                  s2 = set_style ''marginTop'' (px sp) s1
              in add_class el ''y-below'' s2))
      | Y_between \<Rightarrow>
          (let offsideTop =
                 js_less (js_minus (to_number centerY) (Some (of_int elHeight / 2))) (Some 0);
               offsideBottom =
                 js_greater (js_plus (to_number centerY) (Some (of_int elHeight / 2)))
                   (Some (of_int ih))
           in
           if offsideTop then
             (let s1 = set_style ''top'' (px sp) st;
                  s2 = set_style ''maxHeight'' (px (ih - sp * 2)) s1
              in add_class el ''y-screen-top'' s2)
           else if offsideBottom then
             (let s1 = set_style ''bottom'' (px sp) st;
                  s2 = set_style ''maxHeight'' (px (ih - sp * 2)) s1
              in add_class el ''y-screen-bottom'' s2)
           else
             (let s1 = set_style ''top'' (field_px centerY) st;
                  s2 = s1\<lparr>ty := ''-50%''\<rparr>
              in add_class el ''y-between'' s2))
      | Y_top \<Rightarrow> add_class el ''y-top'' (set_style ''top'' (px (top' off)) st)
      | Y_bottom \<Rightarrow> add_class el ''y-bottom'' (set_style ''bottom'' (px (bottom off)) st))"

text \<open>The options' defaults, as the destructuring pattern gives them.\<close>

definition xDir_of :: "PopupOptions \<Rightarrow> DirectionX" where
  "xDir_of options = (case xDir options of None \<Rightarrow> X_between | Some d \<Rightarrow> d)"

definition yDir_of :: "PopupOptions \<Rightarrow> DirectionY" where
  "yDir_of options = (case yDir options of None \<Rightarrow> Y_below | Some d \<Rightarrow> d)"

definition scale_of :: "PopupOptions \<Rightarrow> real" where
  "scale_of options = (case scale options of None \<Rightarrow> 1 | Some s \<Rightarrow> s)"

definition swap_of :: "PopupOptions \<Rightarrow> bool" where
  "swap_of options = (case swap options of None \<Rightarrow> True | Some b \<Rightarrow> b)"

definition space_of :: "PopupOptions \<Rightarrow> int" where
  "space_of options = (case space options of None \<Rightarrow> 8 | Some n \<Rightarrow> n)"

text \<open>
  \<open>popup\<close> up to the call of \<open>style\<close>, for a present element and parent: the two
  measurements, the two blocks and the transform. The rectangle that \<open>offsets\<close> returns has
  no \<open>centerX\<close> and no \<open>centerY\<close>, so both destructure to \<open>undefined\<close>.
\<close>

definition popup_placement :: "PopupOptions \<Rightarrow> nat \<Rightarrow> nat \<Rightarrow> page \<Rightarrow> error + placement" where
  "popup_placement options el par pg =
     (let elr = scaledBoundingClientRect pg el (scale_of options)
      in case offsets pg par (Boolean False) (scale_of options) of
           Inl err \<Rightarrow> Inl err
         | Inr off \<Rightarrow>
             (let centerX = None;
                  centerY = None;
                  st0 = \<lparr>page_of = pg, styles = [], tx = ''0'', ty = ''0''\<rparr>;
                  st1 = place_x el (xDir_of options) (swap_of options) (space_of options)
                          (innerWidth pg) (width elr) off centerX st0;
                  st2 = place_y el (yDir_of options) (swap_of options) (space_of options)
                          (innerHeight pg) (height elr) off centerY st1
              in Inr (set_style ''transform''
                        (''translate3d('' @ tx st2 @ '', '' @ ty st2 @ '', 0)'') st2)))"

definition console_warn :: "string \<Rightarrow> page \<Rightarrow> page" where
  "console_warn msg pg = pg\<lparr>console := console pg @ [msg]\<rparr>"

definition popup :: "PopupOptions \<Rightarrow> page \<Rightarrow> error + page" where
  "popup options pg =
     (case (element options, parent options) of
        (Some el, Some par) \<Rightarrow>
          (case popup_placement options el par pg of
             Inl err \<Rightarrow> Inl err
           | Inr st \<Rightarrow> Inr (style el (styles st) False (page_of st)))
      | _ \<Rightarrow>
          Inr (console_warn
            ''Popup ignored because the given element/parent in the options is not an HTML Element.''
            pg))"

section \<open>Scenario inputs\<close>

text \<open>A well-formed raw rectangle from its corner and size.\<close>

definition box :: "real \<Rightarrow> real \<Rightarrow> real \<Rightarrow> real \<Rightarrow> DOMRect" where
  "box x y w h =
     \<lparr>raw_left = x, raw_top = y, raw_right = x + w, raw_bottom = y + h,
      raw_width = w, raw_height = h, raw_x = x, raw_y = y\<rparr>"

text \<open>
  A page with the anchor as element 0 and the popup as element 1, a child of the anchor
  (every other handle measures like the popup and has no parent), no classes, no inline
  style and an empty console.
\<close>

definition page_with :: "int \<Rightarrow> int \<Rightarrow> DOMRect \<Rightarrow> DOMRect \<Rightarrow> page" where
  "page_with iw ih anchor_box popup_box =
     \<lparr>innerWidth = iw, innerHeight = ih,
      nodes = (\<lambda>n. \<lparr>parentElement = (if n = 1 then Some 0 else None),
                     getBoundingClientRect = (if n = 0 then anchor_box else popup_box),
                     classList = [], inline_style = []\<rparr>),
      console = []\<rparr>"

definition popup_options :: "DirectionX option \<Rightarrow> DirectionY option \<Rightarrow> PopupOptions" where
  "popup_options xd yd =
     \<lparr>element = Some 1, parent = Some 0, xDir = xd, yDir = yd,
      scale = None, swap = None, space = None\<rparr>"

section \<open>Keys of a style patch\<close>

text \<open>
  The key lists the horizontal and the vertical block can add to an empty \<open>styles\<close> object,
  and the property wanted of the keys of a finished patch: one box offset per axis, at most
  one size limit and at most one margin per axis.
\<close>

definition x_keys :: "string list list" where
  "x_keys = [[''left'', ''marginLeft''], [''right'', ''marginRight''], [''left'', ''maxWidth''],
             [''right'', ''maxWidth''], [''left''], [''right'']]"

definition y_keys :: "string list list" where
  "y_keys = [[''top'', ''marginTop''], [''bottom'', ''marginBottom''], [''top'', ''maxHeight''],
             [''bottom'', ''maxHeight''], [''top''], [''bottom'']]"

definition keys_ok :: "string list \<Rightarrow> bool" where
  "keys_ok ks \<longleftrightarrow>
     count_list ks ''left'' + count_list ks ''right'' = 1 \<and>
     count_list ks ''top'' + count_list ks ''bottom'' = 1 \<and>
     count_list ks ''maxWidth'' \<le> 1 \<and> count_list ks ''maxHeight'' \<le> 1 \<and>
     count_list ks ''marginLeft'' + count_list ks ''marginRight'' \<le> 1 \<and>
     count_list ks ''marginTop'' + count_list ks ''marginBottom'' \<le> 1"

text \<open>The marker classes that \<open>popup\<close> passes to \<open>classList.add\<close>.\<close>

definition marker_classes :: "string list" where
  "marker_classes =
     [''x-after'', ''x-before'', ''x-screen-left'', ''x-screen-right'', ''x-between'',
      ''x-left'', ''x-right'', ''y-below'', ''y-above'', ''y-screen-top'', ''y-screen-bottom'',
      ''y-between'', ''y-top'', ''y-bottom'']"

section \<open>Rounding\<close>




section \<open>Measuring against a reference\<close>

text \<open>
  C9. When \<open>relativeTo\<close> is truthy and the resolved reference is \<open>null\<close> or has no
  \<open>getBoundingClientRect\<close>, \<open>offsets\<close> throws: the result is the error and no rectangle. The
  source throws a plain \<open>Error\<close> with the message below; that is the error the specification
  calls InvalidReferenceError.
\<close>

theorem offsets_invalid_reference:
  assumes "truthy rel_to"
    and "relation pg el rel_to = None \<or> relation pg el rel_to = Some NonElement"
  shows "offsets pg el rel_to sc =
    Inl (Error ''Invalid relativeTo argument. Must be boolean or HTML Element!'')"
  using assms by (auto simp: offsets_def)

theorem offsets_invalid_reference_witness:
  "truthy (Boolean True) \<and>
   relation (page_with 400 300 (box 0 10 100 20) (box 0 0 150 30)) 0 (Boolean True) = None \<and>
   offsets (page_with 400 300 (box 0 10 100 20) (box 0 0 150 30)) 0 (Boolean True) 1 =
     Inl (Error ''Invalid relativeTo argument. Must be boolean or HTML Element!'') \<and>
   truthy (Reference NonElement) \<and>
   relation (page_with 400 300 (box 0 10 100 20) (box 0 0 150 30)) 1 (Reference NonElement) =
     Some NonElement \<and>
   offsets (page_with 400 300 (box 0 10 100 20) (box 0 0 150 30)) 1 (Reference NonElement) 1 =
     Inl (Error ''Invalid relativeTo argument. Must be boolean or HTML Element!'')"
  using offsets_invalid_reference [of "Boolean True"
      "page_with 400 300 (box 0 10 100 20) (box 0 0 150 30)" 0 1]
    offsets_invalid_reference [of "Reference NonElement"
      "page_with 400 300 (box 0 10 100 20) (box 0 0 150 30)" 1 1]
  by (simp add: page_with_def)

section \<open>Measuring against the viewport\<close>




section \<open>The rectangle invariant\<close>




section \<open>Facts about the placement state\<close>

lemma styles_add_class [simp]: "styles (add_class el c st) = styles st"
  by (simp add: add_class_def)

lemma styles_set_style [simp]:
  "styles (set_style k v st) = AList.update k (Text v) (styles st)"
  by (simp add: set_style_def)

lemma page_of_set_style [simp]: "page_of (set_style k v st) = page_of st"
  by (simp add: set_style_def)

lemma page_of_add_class [simp]:
  "page_of (add_class el c st) = classList_add el c (page_of st)"
  by (simp add: add_class_def)

lemma offsets_viewport_total: "\<exists>off. offsets pg par (Boolean False) sc = Inr off"
  by (simp add: offsets_def Let_def)

lemma popup_placement_Inr:
  assumes "offsets pg par (Boolean False) (scale_of options) = Inr off"
  shows "\<exists>t. popup_placement options el par pg =
     Inr (set_style ''transform'' t
       (place_y el (yDir_of options) (swap_of options) (space_of options) (innerHeight pg)
          (height (scaledBoundingClientRect pg el (scale_of options))) off None
          (place_x el (xDir_of options) (swap_of options) (space_of options) (innerWidth pg)
             (width (scaledBoundingClientRect pg el (scale_of options))) off None
             \<lparr>page_of = pg, styles = [], tx = ''0'', ty = ''0''\<rparr>)))"
  using assms by (simp add: popup_placement_def Let_def) blast

lemma popup_present:
  assumes "element options = Some el" and "parent options = Some par"
    and "popup_placement options el par pg = Inr st"
  shows "popup options pg = Inr (style el (styles st) False (page_of st))"
  using assms by (simp add: popup_def)

section \<open>One box offset per axis\<close>

lemma place_x_keys:
  "map fst (styles (place_x el xd sw sp iw ew off cx
      \<lparr>page_of = pg, styles = [], tx = a, ty = b\<rparr>)) \<in> set x_keys"
  by (cases xd) (simp_all add: place_x_def Let_def x_keys_def)

lemma place_y_keys:
  assumes "map fst (styles st) \<in> set x_keys"
  shows "\<exists>ys \<in> set y_keys.
    map fst (styles (place_y el yd sw sp ih eh off cy st)) = map fst (styles st) @ ys"
proof -
  have fresh: "''top'' \<notin> set (map fst (styles st))" "''bottom'' \<notin> set (map fst (styles st))"
    "''marginTop'' \<notin> set (map fst (styles st))" "''marginBottom'' \<notin> set (map fst (styles st))"
    "''maxHeight'' \<notin> set (map fst (styles st))"
    using assms by (auto simp: x_keys_def)
  show ?thesis
    using fresh
    by (cases yd) (simp_all add: place_y_def Let_def y_keys_def update_keys del: set_map)
qed

lemma keys_ok_all:
  assumes "xs \<in> set x_keys" and "ys \<in> set y_keys"
  shows "keys_ok (xs @ ys @ [''transform''])"
  using assms by (auto simp: x_keys_def y_keys_def keys_ok_def)

lemma place_keys:
  "keys_ok (map fst (styles (set_style ''transform'' t
     (place_y el yd sw sp ih eh off cy
       (place_x el xd sw sp iw ew off cx \<lparr>page_of = pg, styles = [], tx = a, ty = b\<rparr>)))))"
proof -
  let ?s1 = "place_x el xd sw sp iw ew off cx \<lparr>page_of = pg, styles = [], tx = a, ty = b\<rparr>"
  let ?s2 = "place_y el yd sw sp ih eh off cy ?s1"
  have x: "map fst (styles ?s1) \<in> set x_keys" by (rule place_x_keys)
  from place_y_keys [OF x] obtain ys where ys: "ys \<in> set y_keys"
    and k2: "map fst (styles ?s2) = map fst (styles ?s1) @ ys" by blast
  have "''transform'' \<notin> set (map fst (styles ?s1) @ ys)"
    using x ys by (auto simp: x_keys_def y_keys_def)
  then have "map fst (styles (set_style ''transform'' t ?s2)) =
      map fst (styles ?s1) @ ys @ [''transform'']"
    by (simp add: update_keys k2 del: set_map)
  then show ?thesis using keys_ok_all [OF x ys] by simp
qed

text \<open>
  C6. For every call of \<open>popup\<close> with a present element and parent, whatever the two
  directions (given or defaulted), the scale, the swap flag and the space: the call
  returns, the patch it hands to \<open>style\<close> has exactly one of the keys \<open>left\<close>, \<open>right\<close> and
  exactly one of \<open>top\<close>, \<open>bottom\<close>, at most one \<open>maxWidth\<close>, at most one \<open>maxHeight\<close>, at most one
  of \<open>marginLeft\<close>, \<open>marginRight\<close> and at most one of \<open>marginTop\<close>, \<open>marginBottom\<close>.
\<close>

theorem popup_direction_exclusivity:
  assumes "element options = Some el" and "parent options = Some par"
  shows "\<exists>st. popup_placement options el par pg = Inr st \<and>
    popup options pg = Inr (style el (styles st) False (page_of st)) \<and>
    count_list (map fst (styles st)) ''left'' + count_list (map fst (styles st)) ''right'' = 1 \<and>
    count_list (map fst (styles st)) ''top'' + count_list (map fst (styles st)) ''bottom'' = 1 \<and>
    count_list (map fst (styles st)) ''maxWidth'' \<le> 1 \<and>
    count_list (map fst (styles st)) ''maxHeight'' \<le> 1 \<and>
    count_list (map fst (styles st)) ''marginLeft'' +
      count_list (map fst (styles st)) ''marginRight'' \<le> 1 \<and>
    count_list (map fst (styles st)) ''marginTop'' +
      count_list (map fst (styles st)) ''marginBottom'' \<le> 1"
proof -
  obtain off where off: "offsets pg par (Boolean False) (scale_of options) = Inr off"
    using offsets_viewport_total by blast
  from popup_placement_Inr [OF off] obtain t where
    st: "popup_placement options el par pg =
     Inr (set_style ''transform'' t
       (place_y el (yDir_of options) (swap_of options) (space_of options) (innerHeight pg)
          (height (scaledBoundingClientRect pg el (scale_of options))) off None
          (place_x el (xDir_of options) (swap_of options) (space_of options) (innerWidth pg)
             (width (scaledBoundingClientRect pg el (scale_of options))) off None
             \<lparr>page_of = pg, styles = [], tx = ''0'', ty = ''0''\<rparr>)))" (is "_ = Inr ?st")
    by blast
  have "keys_ok (map fst (styles ?st))" by (rule place_keys)
  then show ?thesis
    using st popup_present [OF assms st] unfolding keys_ok_def by blast
qed

theorem popup_direction_exclusivity_witness:
  "element (popup_options (Some X_after) (Some Y_above)) = Some 1 \<and>
   parent (popup_options (Some X_after) (Some Y_above)) = Some 0 \<and>
   (\<exists>st. popup_placement (popup_options (Some X_after) (Some Y_above)) 1 0
            (page_with 400 300 (box 0 10 100 20) (box 0 0 150 30)) = Inr st \<and>
      count_list (map fst (styles st)) ''left'' + count_list (map fst (styles st)) ''right'' = 1 \<and>
      count_list (map fst (styles st)) ''top'' + count_list (map fst (styles st)) ''bottom'' = 1)"
  using popup_direction_exclusivity [of "popup_options (Some X_after) (Some Y_above)" 1 0
      "page_with 400 300 (box 0 10 100 20) (box 0 0 150 30)"]
  by (simp add: popup_options_def) blast

section \<open>A missing element or parent\<close>

text \<open>
  C8. When the element or the parent of the options is missing, \<open>popup\<close> returns normally;
  the page it leaves differs from the one it found only by one more warning on the
  console: every element, with its classes and inline style, is as before.
\<close>

theorem popup_missing_target:
  assumes "element options = None \<or> parent options = None"
  shows "popup options pg =
      Inr (console_warn
        ''Popup ignored because the given element/parent in the options is not an HTML Element.''
        pg) \<and>
    nodes (console_warn
        ''Popup ignored because the given element/parent in the options is not an HTML Element.''
        pg) = nodes pg \<and>
    console (console_warn
        ''Popup ignored because the given element/parent in the options is not an HTML Element.''
        pg) =
      console pg @
        [''Popup ignored because the given element/parent in the options is not an HTML Element.'']"
  using assms by (auto simp: popup_def console_warn_def split: option.splits)

theorem popup_missing_target_witness:
  "element ((popup_options None None)\<lparr>element := None\<rparr>) = None \<and>
   popup ((popup_options None None)\<lparr>element := None\<rparr>)
       (page_with 400 300 (box 0 10 100 20) (box 0 0 150 30)) =
     Inr (console_warn
        ''Popup ignored because the given element/parent in the options is not an HTML Element.''
        (page_with 400 300 (box 0 10 100 20) (box 0 0 150 30))) \<and>
   console (console_warn
        ''Popup ignored because the given element/parent in the options is not an HTML Element.''
        (page_with 400 300 (box 0 10 100 20) (box 0 0 150 30))) =
     [''Popup ignored because the given element/parent in the options is not an HTML Element.'']"
  using popup_missing_target [of "(popup_options None None)\<lparr>element := None\<rparr>"
      "page_with 400 300 (box 0 10 100 20) (box 0 0 150 30)"]
  by (simp add: popup_options_def page_with_def)

section \<open>Marker classes\<close>

lemma classes_classList_add:
  "set (classList (nodes (classList_add el c pg) n)) =
     (if n = el then insert c (set (classList (nodes pg n))) else set (classList (nodes pg n)))"
  by (auto simp: classList_add_def)

lemma classList_style_assign [simp]:
  "classList (nodes (style_assign el k v pg) n) = classList (nodes pg n)"
  by (simp add: style_assign_def)

lemma classList_style_entries [simp]:
  "classList (nodes (style_entries el sts pg) n) = classList (nodes pg n)"
  by (induction sts arbitrary: pg) auto

lemma classList_style [simp]:
  "classList (nodes (style el sts False pg) n) = classList (nodes pg n)"
  by (simp add: style_def)

lemma place_x_classes:
  "set (classList (nodes (page_of st) n)) \<subseteq>
   set (classList (nodes (page_of (place_x el xd sw sp iw ew off cx st)) n))"
  by (cases xd) (auto simp: place_x_def Let_def classes_classList_add)

lemma place_y_classes:
  "set (classList (nodes (page_of st) n)) \<subseteq>
   set (classList (nodes (page_of (place_y el yd sw sp ih eh off cy st)) n))"
  by (cases yd) (auto simp: place_y_def Let_def classes_classList_add)

lemma place_y_below_swap:
  assumes "top' off + eh > ih"
  shows "{''y-below'', ''y-above''} \<subseteq>
    set (classList (nodes (page_of (place_y el Y_below True sp ih eh off cy st)) el))"
  using assms by (simp add: place_y_def Let_def classes_classList_add)

lemma classList_add_other:
  "n \<noteq> el \<Longrightarrow> classList (nodes (classList_add el c pg) n) = classList (nodes pg n)"
  by (simp add: classList_add_def)

lemma place_x_frame:
  "n \<noteq> el \<Longrightarrow> classList (nodes (page_of (place_x el xd sw sp iw ew off cx st)) n) =
     classList (nodes (page_of st) n)"
  by (cases xd) (simp_all add: place_x_def Let_def classList_add_other)

lemma place_y_frame:
  "n \<noteq> el \<Longrightarrow> classList (nodes (page_of (place_y el yd sw sp ih eh off cy st)) n) =
     classList (nodes (page_of st) n)"
  by (cases yd) (simp_all add: place_y_def Let_def classList_add_other)

lemma add_marker:
  assumes "c \<in> set marker_classes"
    and "set (classList (nodes pg el)) \<subseteq> A \<union> set marker_classes"
  shows "set (classList (nodes (classList_add el c pg) el)) \<subseteq> A \<union> set marker_classes"
  using assms by (auto simp: classes_classList_add)

lemma markers:
  "''x-after'' \<in> set marker_classes" "''x-before'' \<in> set marker_classes"
  "''x-screen-left'' \<in> set marker_classes" "''x-screen-right'' \<in> set marker_classes"
  "''x-between'' \<in> set marker_classes" "''x-left'' \<in> set marker_classes"
  "''x-right'' \<in> set marker_classes" "''y-below'' \<in> set marker_classes"
  "''y-above'' \<in> set marker_classes" "''y-screen-top'' \<in> set marker_classes"
  "''y-screen-bottom'' \<in> set marker_classes" "''y-between'' \<in> set marker_classes"
  "''y-top'' \<in> set marker_classes" "''y-bottom'' \<in> set marker_classes"
  by (simp_all add: marker_classes_def)

lemma place_x_markers:
  assumes "set (classList (nodes (page_of st) el)) \<subseteq> A \<union> set marker_classes"
  shows "set (classList (nodes (page_of (place_x el xd sw sp iw ew off cx st)) el))
     \<subseteq> A \<union> set marker_classes"
  using assms
  by (cases xd) (simp_all add: place_x_def Let_def add_marker markers)

lemma place_y_markers:
  assumes "set (classList (nodes (page_of st) el)) \<subseteq> A \<union> set marker_classes"
  shows "set (classList (nodes (page_of (place_y el yd sw sp ih eh off cy st)) el))
     \<subseteq> A \<union> set marker_classes"
  using assms
  by (cases yd) (simp_all add: place_y_def Let_def add_marker markers)

lemma popup_classes_frame:
  assumes "element options = Some el" and "parent options = Some par"
    and "popup options pg = Inr pg'"
  shows "(\<forall>n. n \<noteq> el \<longrightarrow> classList (nodes pg' n) = classList (nodes pg n)) \<and>
    set (classList (nodes pg' el)) \<subseteq> set (classList (nodes pg el)) \<union> set marker_classes"
proof -
  obtain off where off: "offsets pg par (Boolean False) (scale_of options) = Inr off"
    using offsets_viewport_total by blast
  from popup_placement_Inr [OF off] obtain t where
    st: "popup_placement options el par pg =
     Inr (set_style ''transform'' t
       (place_y el (yDir_of options) (swap_of options) (space_of options) (innerHeight pg)
          (height (scaledBoundingClientRect pg el (scale_of options))) off None
          (place_x el (xDir_of options) (swap_of options) (space_of options) (innerWidth pg)
             (width (scaledBoundingClientRect pg el (scale_of options))) off None
             \<lparr>page_of = pg, styles = [], tx = ''0'', ty = ''0''\<rparr>)))"
    by blast
  have a: "set (classList (nodes (page_of
        \<lparr>page_of = pg, styles = [], tx = ''0'', ty = ''0''\<rparr>) el))
      \<subseteq> set (classList (nodes pg el)) \<union> set marker_classes" by simp
  show ?thesis
    using popup_present [OF assms(1,2) st] assms(3)
      place_y_markers [OF place_x_markers [OF a]]
    by (auto simp: place_x_frame place_y_frame)
qed

lemma popup_classes_mono:
  "\<exists>pg'. popup options pg = Inr pg' \<and>
     (\<forall>n. set (classList (nodes pg n)) \<subseteq> set (classList (nodes pg' n)))"
proof (cases "element options = None \<or> parent options = None")
  case True
  then have "popup options pg = Inr (console_warn
      ''Popup ignored because the given element/parent in the options is not an HTML Element.''
      pg)"
    by (auto simp: popup_def split: option.splits)
  then show ?thesis by (simp add: console_warn_def)
next
  case False
  then obtain el par where ep: "element options = Some el" "parent options = Some par"
    by auto
  obtain off where off: "offsets pg par (Boolean False) (scale_of options) = Inr off"
    using offsets_viewport_total by blast
  from popup_placement_Inr [OF off] obtain t where
    st: "popup_placement options el par pg =
     Inr (set_style ''transform'' t
       (place_y el (yDir_of options) (swap_of options) (space_of options) (innerHeight pg)
          (height (scaledBoundingClientRect pg el (scale_of options))) off None
          (place_x el (xDir_of options) (swap_of options) (space_of options) (innerWidth pg)
             (width (scaledBoundingClientRect pg el (scale_of options))) off None
             \<lparr>page_of = pg, styles = [], tx = ''0'', ty = ''0''\<rparr>)))"
      (is "_ = Inr (set_style _ _ (place_y _ _ _ _ _ _ _ _ ?s1))")
    by blast
  have "set (classList (nodes pg n)) \<subseteq> set (classList (nodes (page_of ?s1) n))" for n
    using place_x_classes [of "\<lparr>page_of = pg, styles = [], tx = ''0'', ty = ''0''\<rparr>" n] by simp
  then show ?thesis
    using popup_present [OF ep st] place_y_classes [of ?s1] by (simp, blast)
qed

text \<open>
  C10. A call of \<open>popup\<close> with a present element and parent returns, and every class that an
  element had before the call it still has after it; the class lists of the other elements
  are unchanged, and what the element gained are marker classes. So a class is still there
  after any further call of \<open>popup\<close>, whatever that call's options. And when the vertical
  direction is \<open>below\<close> (given or defaulted), swap is on and, at a scale above 0, the anchor's
  top plus the element's height exceeds the viewport height, the element has both \<open>y-below\<close>
  and \<open>y-above\<close> after the one call.
\<close>

theorem popup_only_adds_classes:
  assumes "element options = Some el" and "parent options = Some par"
  shows "\<exists>pg'. popup options pg = Inr pg' \<and>
    (\<forall>n. set (classList (nodes pg n)) \<subseteq> set (classList (nodes pg' n))) \<and>
    (\<forall>n. n \<noteq> el \<longrightarrow> classList (nodes pg' n) = classList (nodes pg n)) \<and>
    set (classList (nodes pg' el)) \<subseteq> set (classList (nodes pg el)) \<union> set marker_classes \<and>
    (\<forall>options2. \<exists>pg2. popup options2 pg' = Inr pg2 \<and>
       (\<forall>n. set (classList (nodes pg n)) \<subseteq> set (classList (nodes pg2 n)))) \<and>
    (\<forall>off. 0 < scale_of options \<and> yDir_of options = Y_below \<and> swap_of options \<and>
       offsets pg par (Boolean False) (scale_of options) = Inr off \<and>
       top' off + height (scaledBoundingClientRect pg el (scale_of options)) > innerHeight pg \<longrightarrow>
       ''y-below'' \<in> set (classList (nodes pg' el)) \<and>
       ''y-above'' \<in> set (classList (nodes pg' el)))"
proof -
  obtain pg' where p1: "popup options pg = Inr pg'"
    and m1: "\<forall>n. set (classList (nodes pg n)) \<subseteq> set (classList (nodes pg' n))"
    using popup_classes_mono by blast
  have seq: "\<exists>pg2. popup options2 pg' = Inr pg2 \<and>
       (\<forall>n. set (classList (nodes pg n)) \<subseteq> set (classList (nodes pg2 n)))" for options2
  proof -
    obtain pg2 where p2: "popup options2 pg' = Inr pg2"
      and m2: "\<forall>n. set (classList (nodes pg' n)) \<subseteq> set (classList (nodes pg2 n))"
      using popup_classes_mono by blast
    from m1 m2 have "\<forall>n. set (classList (nodes pg n)) \<subseteq> set (classList (nodes pg2 n))"
      by blast
    with p2 show ?thesis by blast
  qed
  have both: "''y-below'' \<in> set (classList (nodes pg' el)) \<and>
       ''y-above'' \<in> set (classList (nodes pg' el))"
    if c: "0 < scale_of options \<and> yDir_of options = Y_below \<and> swap_of options \<and>
       offsets pg par (Boolean False) (scale_of options) = Inr off \<and>
       top' off + height (scaledBoundingClientRect pg el (scale_of options)) > innerHeight pg"
    for off
  proof -
    from c have off: "offsets pg par (Boolean False) (scale_of options) = Inr off" by simp
    from popup_placement_Inr [OF off] obtain t where
      st: "popup_placement options el par pg =
       Inr (set_style ''transform'' t
         (place_y el (yDir_of options) (swap_of options) (space_of options) (innerHeight pg)
            (height (scaledBoundingClientRect pg el (scale_of options))) off None
            (place_x el (xDir_of options) (swap_of options) (space_of options) (innerWidth pg)
               (width (scaledBoundingClientRect pg el (scale_of options))) off None
               \<lparr>page_of = pg, styles = [], tx = ''0'', ty = ''0''\<rparr>)))"
        (is "_ = Inr (set_style _ _ (place_y _ _ _ _ _ _ _ _ ?s1))")
      by blast
    have "{''y-below'', ''y-above''} \<subseteq> set (classList (nodes (page_of
        (place_y el Y_below True (space_of options) (innerHeight pg)
            (height (scaledBoundingClientRect pg el (scale_of options))) off None ?s1)) el))"
      using c by (intro place_y_below_swap) simp
    then show ?thesis
      using popup_present [OF assms st] p1 c by simp
  qed
  from p1 m1 popup_classes_frame [OF assms p1] seq both show ?thesis by blast
qed

theorem popup_only_adds_classes_witness:
  "element (popup_options (Some X_before) None) = Some 1 \<and>
   parent (popup_options (Some X_before) None) = Some 0 \<and>
   yDir_of (popup_options (Some X_before) None) = Y_below \<and>
   swap_of (popup_options (Some X_before) None) \<and>
   0 < scale_of (popup_options (Some X_before) None) \<and>
   (\<exists>pg'. popup (popup_options (Some X_before) None)
            (page_with 400 300 (box 0 290 100 20) (box 0 0 150 30)) = Inr pg' \<and>
      ''y-below'' \<in> set (classList (nodes pg' 1)) \<and>
      ''y-above'' \<in> set (classList (nodes pg' 1))) \<and>
   (case popup (popup_options (Some X_before) None)
            (page_with 400 300 (box 0 290 100 20) (box 0 0 150 30)) of
      Inl e \<Rightarrow> False
    | Inr pg' \<Rightarrow>
        classList (nodes pg' 1) = [''x-before'', ''y-below'', ''y-above''] \<and>
        (case popup (popup_options (Some X_after) None) pg' of
           Inl e \<Rightarrow> False
         | Inr pg2 \<Rightarrow>
             classList (nodes pg2 1) = [''x-before'', ''y-below'', ''y-above'', ''x-after'']))"
proof -
  let ?O = "popup_options (Some X_before) None"
  let ?P = "page_with 400 300 (box 0 290 100 20) (box 0 0 150 30)"
  have e: "element ?O = Some 1" "parent ?O = Some 0" by (simp_all add: popup_options_def)
  have d: "yDir_of ?O = Y_below" "swap_of ?O" "0 < scale_of ?O"
    by (simp_all add: popup_options_def yDir_of_def swap_of_def scale_of_def)
  have off: "offsets ?P 0 (Boolean False) (scale_of ?O) =
      Inr \<lparr>left = 0, top' = 290, right = 300, bottom = -10, width = 100, height = 20\<rparr>"
    by (simp add: offsets_def Let_def scaledBoundingClientRect_def scaleRect_def
        page_with_def box_def Math_round_def scale_of_def popup_options_def)
  have h: "height (scaledBoundingClientRect ?P 1 (scale_of ?O)) = 30"
    by (simp add: scaledBoundingClientRect_def scaleRect_def
        page_with_def box_def Math_round_def scale_of_def popup_options_def)
  have i: "innerHeight ?P = 300" by (simp add: page_with_def)
  from popup_only_adds_classes [OF e, of ?P] obtain pg' where
    p: "popup ?O ?P = Inr pg'"
    and b: "\<forall>off. 0 < scale_of ?O \<and> yDir_of ?O = Y_below \<and> swap_of ?O \<and>
       offsets ?P 0 (Boolean False) (scale_of ?O) = Inr off \<and>
       top' off + height (scaledBoundingClientRect ?P 1 (scale_of ?O)) > innerHeight ?P \<longrightarrow>
       ''y-below'' \<in> set (classList (nodes pg' 1)) \<and>
       ''y-above'' \<in> set (classList (nodes pg' 1))"
    by blast
  from b d off h i have both: "''y-below'' \<in> set (classList (nodes pg' 1)) \<and>
       ''y-above'' \<in> set (classList (nodes pg' 1))" by simp
  have run: "(case popup ?O ?P of
      Inl e \<Rightarrow> False
    | Inr pg' \<Rightarrow>
        classList (nodes pg' 1) = [''x-before'', ''y-below'', ''y-above''] \<and>
        (case popup (popup_options (Some X_after) None) pg' of
           Inl e \<Rightarrow> False
         | Inr pg2 \<Rightarrow>
             classList (nodes pg2 1) = [''x-before'', ''y-below'', ''y-above'', ''x-after'']))"
    by code_simp
  from e d p both run show ?thesis by blast
qed

section \<open>The specification's scenarios, run on the code\<close>

text \<open>
  C1. The scenario: direction \<open>between\<close>, the anchor spans \<open>x\<close> from 150 to 250 (centre 200),
  the element is 50 wide, the viewport 400 wide, scale 1. The code takes the centring
  branch (translation \<open>-50%\<close>, class \<open>x-between\<close>), but the patch's \<open>left\<close> is the text
  \<open>undefinedpx\<close>, not \<open>200px\<close>: \<open>centerX\<close> is not a property of what \<open>offsets\<close> returns.
\<close>

theorem between_centering_scenario:
  "(case popup_placement (popup_options (Some X_between) None) 1 0
      (page_with 400 300 (box 150 10 100 20) (box 0 0 50 30)) of
    Inl e \<Rightarrow> False
  | Inr st \<Rightarrow>
      styles st = [(''left'', Text ''undefinedpx''), (''top'', Text ''30px''),
                   (''marginTop'', Text ''8px''),
                   (''transform'', Text ''translate3d(-50%, 0, 0)'')] \<and>
      classList (nodes (page_of st) 1) = [''x-between'', ''y-below'']) \<and>
   offsets (page_with 400 300 (box 150 10 100 20) (box 0 0 50 30)) 0 (Boolean False) 1 =
     Inr \<lparr>left = 150, top' = 10, right = 150, bottom = 270, width = 100, height = 20\<rparr> \<and>
   width (scaledBoundingClientRect
     (page_with 400 300 (box 150 10 100 20) (box 0 0 50 30)) 1 1) = 50"
  by code_simp

text \<open>
  C2. The scenario: direction \<open>before\<close>, swap on, the anchor spans \<open>x\<close> from 0 to 100, the
  element is 150 wide, the viewport 400 wide, scale 1. The anchor's \<open>right\<close> is 300, the test
  \<open>right + elWidth < 0\<close> is \<open>450 < 0\<close> and fails, and the code takes the branch without
  overflow: \<open>right = 400px\<close>, \<open>marginRight = 8px\<close>, class \<open>x-before\<close>; no \<open>left\<close>, no \<open>marginLeft\<close>, no
  \<open>x-after\<close>.
\<close>

theorem swap_before_scenario:
  "(case popup_placement ((popup_options (Some X_before) None)\<lparr>swap := Some True\<rparr>) 1 0
      (page_with 400 300 (box 0 10 100 20) (box 0 0 150 30)) of
    Inl e \<Rightarrow> False
  | Inr st \<Rightarrow>
      styles st = [(''right'', Text ''400px''), (''marginRight'', Text ''8px''),
                   (''top'', Text ''30px''), (''marginTop'', Text ''8px''),
                   (''transform'', Text ''translate3d(0, 0, 0)'')] \<and>
      classList (nodes (page_of st) 1) = [''x-before'', ''y-below'']) \<and>
   offsets (page_with 400 300 (box 0 10 100 20) (box 0 0 150 30)) 0 (Boolean False) 1 =
     Inr \<lparr>left = 0, top' = 10, right = 300, bottom = 270, width = 100, height = 20\<rparr> \<and>
   width (scaledBoundingClientRect
     (page_with 400 300 (box 0 10 100 20) (box 0 0 150 30)) 1 1) = 150"
  by code_simp

text \<open>
  C3. The scenario: direction \<open>between\<close>, the anchor spans \<open>x\<close> from 0 to 20 (centre 10), the
  element is 50 wide, space 8, the viewport 400 wide, scale 1. \<open>centerX\<close> is \<open>undefined\<close>, both
  overflow tests compare with \<open>NaN\<close> and fail, and the code takes the centring branch:
  \<open>left\<close> is the text \<open>undefinedpx\<close>, there is no \<open>maxWidth\<close>, and the class is \<open>x-between\<close>, not
  \<open>x-screen-left\<close>.
\<close>

theorem screen_edge_scenario:
  "(case popup_placement ((popup_options (Some X_between) None)\<lparr>space := Some 8\<rparr>) 1 0
      (page_with 400 300 (box 0 10 20 20) (box 0 0 50 30)) of
    Inl e \<Rightarrow> False
  | Inr st \<Rightarrow>
      styles st = [(''left'', Text ''undefinedpx''), (''top'', Text ''30px''),
                   (''marginTop'', Text ''8px''),
                   (''transform'', Text ''translate3d(-50%, 0, 0)'')] \<and>
      classList (nodes (page_of st) 1) = [''x-between'', ''y-below'']) \<and>
   offsets (page_with 400 300 (box 0 10 20 20) (box 0 0 50 30)) 0 (Boolean False) 1 =
     Inr \<lparr>left = 0, top' = 10, right = 380, bottom = 270, width = 20, height = 20\<rparr> \<and>
   width (scaledBoundingClientRect
     (page_with 400 300 (box 0 10 20 20) (box 0 0 50 30)) 1 1) = 50"
  by code_simp

text \<open>
  C7. \<open>style\<close> on the patch \<open>{width: 5}\<close>: the loop computes \<open>val = 5px\<close> and then assigns
  \<open>value\<close>, the number 5 itself, so the inline style gets \<open>5\<close> and no \<open>px\<close>. A zero or negative
  number is written as the plain number, and an empty string or \<open>undefined\<close> is skipped.
\<close>

theorem style_numeric_scenario:
  "inline_style (nodes (style 1 [(''width'', Numeric 5)] False
      (page_with 400 300 (box 0 10 100 20) (box 0 0 150 30))) 1) = [(''width'', ''5'')] \<and>
   style_val (Numeric 5) = Some ''5px'' \<and>
   inline_style (nodes (style 1 [(''margin'', Numeric 0), (''top'', Numeric (- 3)),
        (''left'', Text ''''), (''right'', Undefined)] False
      (page_with 400 300 (box 0 10 100 20) (box 0 0 150 30))) 1) =
     [(''margin'', ''0''), (''top'', ''-3'')]"
  by code_simp

end
